theory Spec2Isabelle
  imports Complex_Main
begin

section \<open>Python values, errors and the log\<close>

text \<open>
  The values of Python that reach the cart. \<open>bool\<close> is a subclass of \<open>int\<close>, so
  \<open>isinstance(True, (int, float))\<close> holds and a \<open>bool\<close> is a number here. A \<open>float\<close>
  is written as the rational that its decimal denotes (\<open>1.20\<close> is \<open>6 / 5\<close>) and
  arithmetic on it is exact. The rounding of binary floating point, infinities and NaN are
  outside this embedding, so a sum of floats in it is the sum in the code only where the
  rounding does not show, as in \<open>1.20 + 2.50 = 3.70\<close>.
\<close>

datatype number = PyBool bool | PyInt int | PyFloat rat

datatype pyval =
    PyNone
  | PyNum (num_of: number)
  | PyStr (str_of: string)
  | PyList "pyval list"

text \<open>The exceptions that the modelled code can raise or meet.\<close>

datatype error =
    ValueError
  | OverflowError
  | FileNotFoundError
  | PermissionError
  | IsADirectoryError
  | OSError

text \<open>
  A call of the \<open>logging\<close> module: the level, the text of the f-string with its
  placeholders, and the values that fill the placeholders, in order.
\<close>

datatype level = INFO | WARNING | ERROR

type_synonym log_record = "level \<times> string \<times> pyval list"

text \<open>\<open>isinstance(item, str)\<close> and \<open>isinstance(price, (int, float))\<close>.\<close>

definition isinstance_str :: "pyval \<Rightarrow> bool" where
  "isinstance_str v = (case v of PyStr s \<Rightarrow> True | _ \<Rightarrow> False)"

definition isinstance_int_float :: "pyval \<Rightarrow> bool" where
  "isinstance_int_float v = (case v of PyNum n \<Rightarrow> True | _ \<Rightarrow> False)"

text \<open>Truth value testing: a number is false when it is zero, a string when it is empty,
  and \<open>None\<close> is false.\<close>

fun truthy_number :: "number \<Rightarrow> bool" where
  "truthy_number (PyBool b) = b"
| "truthy_number (PyInt n) = (n \<noteq> 0)"
| "truthy_number (PyFloat r) = (r \<noteq> 0)"

fun truthy_name :: "string option \<Rightarrow> bool" where
  "truthy_name None = False"
| "truthy_name (Some s) = (s \<noteq> [])"

fun truthy_price :: "number option \<Rightarrow> bool" where
  "truthy_price None = False"
| "truthy_price (Some p) = truthy_number p"

text \<open>\<open>float(price)\<close>, and \<open>+\<close> on numbers: two integers (or booleans) add to an
  \<open>int\<close>, exactly and without bound; anything with a \<open>float\<close> adds to a
  \<open>float\<close>. Not modelled in the \<open>float\<close> cases: the rounding of the result to
  binary64, and the \<open>OverflowError\<close> of an \<open>int\<close> beyond the range of \<open>float\<close>.\<close>

fun to_float :: "number \<Rightarrow> rat" where
  "to_float (PyBool b) = (if b then 1 else 0)"
| "to_float (PyInt n) = of_int n"
| "to_float (PyFloat r) = r"

fun py_add :: "number \<Rightarrow> number \<Rightarrow> number" where
  "py_add (PyFloat a) y = PyFloat (a + to_float y)"
| "py_add x (PyFloat b) = PyFloat (to_float x + b)"
| "py_add (PyInt a) (PyInt b) = PyInt (a + b)"
| "py_add (PyInt a) (PyBool b) = PyInt (a + (if b then 1 else 0))"
| "py_add (PyBool a) (PyInt b) = PyInt ((if a then 1 else 0) + b)"
| "py_add (PyBool a) (PyBool b) = PyInt ((if a then 1 else 0) + (if b then 1 else 0))"

section \<open>The store: \<open>database.py\<close>\<close>

text \<open>
  The connection holds two tables. A row of \<open>cart\<close> is the tuple \<open>(id, item, price)\<close>
  of the columns \<open>id INTEGER PRIMARY KEY\<close>, \<open>item TEXT\<close>, \<open>price REAL\<close>; the list
  keeps the rows in the order a full scan returns them. \<open>schema_version\<close> holds the
  values of its only column. A table that was never created is the empty list, so that
  \<open>CREATE TABLE IF NOT EXISTS\<close> leaves the connection as it is.
\<close>

type_synonym row = "int \<times> string \<times> rat"

record database =
  cart :: "row list"
  schema_version :: "int list"

text \<open>
  Binding a Python number to a parameter of a statement: an \<open>int\<close> must fit the signed
  64-bit integer of SQLite, else the binding raises \<open>OverflowError\<close>. The column
  \<open>price\<close> has REAL affinity, so the stored value is the number as a float (the
  rounding of an \<open>int\<close> beyond \<open>2 ** 53\<close> to that float is not modelled).
\<close>

definition bind_real :: "number \<Rightarrow> error + rat" where
  "bind_real p =
     (case p of
        PyInt n \<Rightarrow>
          (if - (2 ^ 63) \<le> n \<and> n < 2 ^ 63 then Inr (of_int n) else Inl OverflowError)
      | _ \<Rightarrow> Inr (to_float p))"

text \<open>
  \<open>INSERT INTO cart (item, price) VALUES (?, ?)\<close>: the new row gets the rowid 1 in an
  empty table and one more than the largest rowid otherwise, and is the last row of a scan.
  This is SQLite's rule while the largest rowid is below \<open>2 ** 63 - 1\<close>, which holds in
  every table that these inserts have filled; at that bound SQLite draws an unused rowid
  at random, which is not modelled.
\<close>

fun max_rowid :: "row list \<Rightarrow> int" where
  "max_rowid [] = 0"
| "max_rowid [r] = fst r"
| "max_rowid (r # rs) = max (fst r) (max_rowid rs)"

definition lastrowid :: "row list \<Rightarrow> int" where
  "lastrowid rows = (if rows = [] then 1 else max_rowid rows + 1)"

definition insert_row :: "row list \<Rightarrow> string \<Rightarrow> rat \<Rightarrow> row list" where
  "insert_row rows item price = rows @ [(lastrowid rows, item, price)]"

text \<open>\<open>Database.add_item\<close>: the insert, the id of the new row, one log record.\<close>

definition Database_add_item ::
  "database \<Rightarrow> string \<Rightarrow> number \<Rightarrow> error + (int \<times> database \<times> log_record list)" where
  "Database_add_item conn item price =
     (case bind_real price of
        Inl e \<Rightarrow> Inl e
      | Inr r \<Rightarrow>
          (let item_id = lastrowid (cart conn) in
           Inr (item_id,
                conn\<lparr>cart := insert_row (cart conn) item r\<rparr>,
                [(INFO, ''Item {item} with ID {item_id} and price {price} added to the database.'',
                  [PyStr item, PyNum (PyInt item_id), PyNum price])])))"

text \<open>\<open>DELETE FROM cart WHERE item = ?\<close>: the scan drops each row whose \<open>item\<close> is the
  parameter.\<close>

fun delete_where_item :: "string \<Rightarrow> row list \<Rightarrow> row list" where
  "delete_where_item item [] = []"
| "delete_where_item item (r # rs) =
     (if fst (snd r) = item then delete_where_item item rs
      else r # delete_where_item item rs)"

definition Database_remove_item :: "database \<Rightarrow> string \<Rightarrow> database \<times> log_record list" where
  "Database_remove_item conn item =
     (conn\<lparr>cart := delete_where_item item (cart conn)\<rparr>,
      [(INFO, ''Item {item} removed from the database.'', [PyStr item])])"

text \<open>
  \<open>Database.update_schema\<close>: below version 1 the rows are copied into \<open>cart_new\<close> by
  \<open>INSERT INTO cart_new(item, price) SELECT item, price FROM cart\<close>, one insert per row
  of the scan, the old table is dropped, the new one takes its name, and version 1 is
  recorded.
\<close>

fun insert_select :: "row list \<Rightarrow> row list \<Rightarrow> row list" where
  "insert_select cart_new [] = cart_new"
| "insert_select cart_new (r # rs) =
     insert_select (insert_row cart_new (fst (snd r)) (snd (snd r))) rs"

definition Database_update_schema :: "database \<Rightarrow> int \<Rightarrow> database" where
  "Database_update_schema conn current_version =
     (if current_version < 1 then
        conn\<lparr>cart := insert_select [] (cart conn),
             schema_version := schema_version conn @ [1]\<rparr>
      else conn)"

text \<open>
  \<open>Database.ensure_database_version\<close>: \<open>SELECT version FROM schema_version ORDER BY
  version DESC LIMIT 1\<close> is the largest version or no row; no row means version 0.
\<close>

fun select_version :: "int list \<Rightarrow> int option" where
  "select_version [] = None"
| "select_version (v # vs) =
     (case select_version vs of None \<Rightarrow> Some v | Some w \<Rightarrow> Some (max v w))"

definition Database_ensure_database_version :: "database \<Rightarrow> database" where
  "Database_ensure_database_version conn =
     (let current_version =
            (case select_version (schema_version conn) of None \<Rightarrow> 0 | Some v \<Rightarrow> v)
      in Database_update_schema conn current_version)"

text \<open>\<open>Database.create_table\<close>: \<open>CREATE TABLE IF NOT EXISTS cart\<close>, which keeps
  the rows of a table that exists and makes the table without rows otherwise.\<close>

definition Database_create_table :: "database \<Rightarrow> database" where
  "Database_create_table conn = conn"

text \<open>\<open>Database.__init__\<close> on the connection to the database file.\<close>

definition Database_init :: "database \<Rightarrow> database \<times> log_record list" where
  "Database_init conn =
     (Database_ensure_database_version (Database_create_table conn),
      [(INFO, ''Database connection initialized.'', [])])"

text \<open>
  \<open>Database.update_item\<close>: the three branches test the truth value of \<open>new_name\<close> and
  \<open>new_price\<close>; each \<open>UPDATE ... WHERE item = ?\<close> rewrites every row whose \<open>item\<close> is
  \<open>old_name\<close>. It logs nothing and returns \<open>None\<close>.
\<close>

fun update_where_item ::
  "string \<Rightarrow> string option \<Rightarrow> rat option \<Rightarrow> row list \<Rightarrow> row list" where
  "update_where_item old_name set_item set_price [] = []"
| "update_where_item old_name set_item set_price (r # rs) =
     (if fst (snd r) = old_name then
        (fst r,
         (case set_item of None \<Rightarrow> fst (snd r) | Some n \<Rightarrow> n),
         (case set_price of None \<Rightarrow> snd (snd r) | Some p \<Rightarrow> p))
        # update_where_item old_name set_item set_price rs
      else r # update_where_item old_name set_item set_price rs)"

definition Database_update_item ::
  "database \<Rightarrow> string \<Rightarrow> string option \<Rightarrow> number option \<Rightarrow> error + database" where
  "Database_update_item conn old_name new_name new_price =
     (if truthy_name new_name \<and> truthy_price new_price then
        (case bind_real (the new_price) of
           Inl e \<Rightarrow> Inl e
         | Inr p \<Rightarrow>
             Inr (conn\<lparr>cart := update_where_item old_name new_name (Some p) (cart conn)\<rparr>))
      else if truthy_name new_name then
        Inr (conn\<lparr>cart := update_where_item old_name new_name None (cart conn)\<rparr>)
      else if truthy_price new_price then
        (case bind_real (the new_price) of
           Inl e \<Rightarrow> Inl e
         | Inr p \<Rightarrow>
             Inr (conn\<lparr>cart := update_where_item old_name None (Some p) (cart conn)\<rparr>))
      else Inr conn)"

section \<open>The cart: \<open>api.py\<close>\<close>

text \<open>
  An entry of \<open>self.items\<close> is a dictionary with the keys \<open>"item"\<close> and \<open>"price"\<close>
  and, once the store has assigned one, \<open>"id"\<close>: \<open>key_id\<close> is \<open>None\<close> while the key
  is absent. The state is the object (\<open>items\<close>, \<open>db\<close>) together with the records that
  the process has sent to the \<open>logging\<close> module.
\<close>

record item_data =
  key_id :: "int option"
  key_item :: string
  key_price :: number

record shopping_cart =
  items :: "item_data list"
  db :: database
  logging :: "log_record list"

text \<open>\<open>get_all_items\<close>: one dictionary per row of \<open>SELECT id, item, price FROM cart\<close>.\<close>

definition get_all_items :: "database \<Rightarrow> item_data list" where
  "get_all_items conn =
     map (\<lambda>row. \<lparr>key_id = Some (fst row), key_item = fst (snd row),
                  key_price = PyFloat (snd (snd row))\<rparr>) (cart conn)"

text \<open>\<open>ShoppingCart.__init__\<close>, given the connection that \<open>sqlite3.connect\<close> opens and
  the records logged so far.\<close>

definition ShoppingCart_init :: "database \<Rightarrow> log_record list \<Rightarrow> shopping_cart" where
  "ShoppingCart_init conn lg =
     (let (conn', lg') = Database_init conn in
      \<lparr>items = get_all_items conn', db = conn',
       logging = lg @ lg' @ [(INFO, ''Shopping cart initialized.'', [])]\<rparr>)"

text \<open>
  \<open>add_item\<close>. The dictionary is appended first; \<open>item_data["id"] = item_id\<close> then
  writes into that same dictionary, which is the last entry of the list. An exception
  of the insert leaves the method after the append.
\<close>

definition add_item :: "shopping_cart \<Rightarrow> pyval \<Rightarrow> pyval \<Rightarrow> (error + int) \<times> shopping_cart" where
  "add_item self item price =
     (if \<not> isinstance_str item \<or> \<not> isinstance_int_float price then (Inl ValueError, self)
      else
        (let item_data = \<lparr>key_id = None, key_item = str_of item, key_price = num_of price\<rparr>;
             self1 = self\<lparr>items := items self @ [item_data]\<rparr>
         in case Database_add_item (db self1) (str_of item) (num_of price) of
              Inl e \<Rightarrow> (Inl e, self1)
            | Inr (item_id, conn, lg) \<Rightarrow>
                (Inr item_id,
                 self1\<lparr>items := butlast (items self1) @ [item_data\<lparr>key_id := Some item_id\<rparr>],
                       db := conn,
                       logging := logging self1 @ lg @
                         [(INFO,
                           ''Item {item} with ID {item_id} and price {float(price):.2f} $ added to the cart.'',
                           [item, PyNum (PyInt item_id), PyNum (PyFloat (to_float (num_of price)))])]\<rparr>)))"

text \<open>The loop \<open>for i in self.items: if i["item"] == item_name: ...\<close> up to its first
  hit, which is what \<open>get_item\<close> returns.\<close>

fun first_match :: "item_data list \<Rightarrow> string \<Rightarrow> item_data option" where
  "first_match [] item_name = None"
| "first_match (i # rest) item_name =
     (if key_item i = item_name then Some i else first_match rest item_name)"

definition get_item :: "shopping_cart \<Rightarrow> string \<Rightarrow> item_data option" where
  "get_item self item_name = first_match (items self) item_name"

text \<open>\<open>remove_item\<close>: at the first hit \<open>self.items.remove(i)\<close> deletes the first entry
  equal to \<open>i\<close>, one record is logged and the loop breaks; the store is called after
  the loop in every case.\<close>

definition remove_item :: "shopping_cart \<Rightarrow> string \<Rightarrow> shopping_cart" where
  "remove_item self item =
     (let self1 =
            (case first_match (items self) item of
               Some i \<Rightarrow>
                 self\<lparr>items := remove1 i (items self),
                      logging := logging self @
                        [(INFO, ''Item {item} removed from the cart.'', [PyStr item])]\<rparr>
             | None \<Rightarrow> self);
          (conn, lg) = Database_remove_item (db self1) item
      in self1\<lparr>db := conn, logging := logging self1 @ lg\<rparr>)"

definition get_count :: "shopping_cart \<Rightarrow> nat" where
  "get_count self = length (items self)"

text \<open>\<open>get_total_price\<close>: \<open>sum\<close> starts from the integer 0 and adds the prices from
  left to right, with the \<open>+\<close> above, hence exactly where Python rounds.\<close>

fun py_sum :: "number list \<Rightarrow> number \<Rightarrow> number" where
  "py_sum [] start = start"
| "py_sum (x # xs) start = py_sum xs (py_add start x)"

definition get_total_price :: "shopping_cart \<Rightarrow> number" where
  "get_total_price self = py_sum (map key_price (items self)) (PyInt 0)"

text \<open>\<open>update_item\<close>: the loop rewrites the first entry named \<open>old_name\<close>, testing
  \<open>is not None\<close>; the log line tests the truth values.\<close>

fun update_first ::
  "item_data list \<Rightarrow> string \<Rightarrow> string option \<Rightarrow> number option \<Rightarrow> item_data list" where
  "update_first [] old_name new_name new_price = []"
| "update_first (i # rest) old_name new_name new_price =
     (if key_item i = old_name then
        (let i1 = (case new_name of None \<Rightarrow> i | Some n \<Rightarrow> i\<lparr>key_item := n\<rparr>);
             i2 = (case new_price of None \<Rightarrow> i1 | Some p \<Rightarrow> i1\<lparr>key_price := p\<rparr>)
         in i2 # rest)
      else i # update_first rest old_name new_name new_price)"

definition update_item ::
  "shopping_cart \<Rightarrow> string \<Rightarrow> string option \<Rightarrow> number option \<Rightarrow>
   (error + unit) \<times> shopping_cart" where
  "update_item self old_name new_name new_price =
     (if new_name = None \<and> new_price = None then
        (Inr (), self\<lparr>logging := logging self @ [(WARNING, ''No updates provided.'', [])]\<rparr>)
      else
        (let self1 = self\<lparr>items := update_first (items self) old_name new_name new_price\<rparr>
         in case Database_update_item (db self1) old_name new_name new_price of
              Inl e \<Rightarrow> (Inl e, self1)
            | Inr conn \<Rightarrow>
                (Inr (),
                 self1\<lparr>db := conn,
                       logging := logging self1 @
                         [(INFO,
                           ''Updated item {old_name} to {new_name if new_name else old_name} with price {new_price if new_price else 'unchanged'} in the cart API.'',
                           [PyStr old_name,
                            PyStr (if truthy_name new_name then the new_name else old_name),
                            (if truthy_price new_price then PyNum (the new_price)
                             else PyStr ''unchanged'')])]\<rparr>)))"

definition refresh_items :: "shopping_cart \<Rightarrow> shopping_cart" where
  "refresh_items self = self\<lparr>items := get_all_items (db self)\<rparr>"

text \<open>
  The exports write a file. The file system maps a file name to what the file holds:
  the lines of the shopping list (name and price of a line), the dumped list of
  dictionaries, or an undetermined part of either after a write that failed. What the
  operating system does with the \<open>open\<close> and the writes is the parameter \<open>io\<close>:
  they complete, or \<open>open\<close> raises, or a write (or the closing flush) raises after
  \<open>open\<close> has created or truncated the file.
\<close>

datatype file_content =
    ShoppingList "(string \<times> number) list"
  | CartJson "item_data list"
  | Partial

type_synonym filesystem = "string \<Rightarrow> file_content option"

datatype io_outcome = Completes | OpenRaises error | WriteRaises error

text \<open>\<open>export_shopping_list\<close>: no handler; the log record follows the \<open>with\<close> block.\<close>

definition export_shopping_list ::
  "shopping_cart \<Rightarrow> string \<Rightarrow> filesystem \<Rightarrow> io_outcome \<Rightarrow>
   (error + unit) \<times> filesystem \<times> shopping_cart" where
  "export_shopping_list self filename fs io =
     (case io of
        OpenRaises e \<Rightarrow> (Inl e, fs, self)
      | WriteRaises e \<Rightarrow> (Inl e, fs(filename \<mapsto> Partial), self)
      | Completes \<Rightarrow>
          (Inr (),
           fs(filename \<mapsto> ShoppingList (map (\<lambda>item. (key_item item, key_price item)) (items self))),
           self\<lparr>logging := logging self @
             [(INFO, ''Shopping list exported to {filename}.'', [PyStr filename])]\<rparr>))"

text \<open>\<open>export_cart_to_json\<close>: the body of the \<open>try\<close>, then the one handler,
  \<open>except FileNotFoundError\<close>, which logs and falls through to the end of the method.\<close>

definition export_cart_to_json_try ::
  "shopping_cart \<Rightarrow> string \<Rightarrow> filesystem \<Rightarrow> io_outcome \<Rightarrow>
   (error + unit) \<times> filesystem \<times> shopping_cart" where
  "export_cart_to_json_try self filename fs io =
     (case io of
        OpenRaises e \<Rightarrow> (Inl e, fs, self)
      | WriteRaises e \<Rightarrow> (Inl e, fs(filename \<mapsto> Partial), self)
      | Completes \<Rightarrow>
          (Inr (),
           fs(filename \<mapsto> CartJson (items self)),
           self\<lparr>logging := logging self @
             [(INFO, ''Shopping cart exported to {filename}'', [PyStr filename])]\<rparr>))"

definition export_cart_to_json ::
  "shopping_cart \<Rightarrow> string \<Rightarrow> filesystem \<Rightarrow> io_outcome \<Rightarrow>
   (error + unit) \<times> filesystem \<times> shopping_cart" where
  "export_cart_to_json self filename fs io =
     (case export_cart_to_json_try self filename fs io of
        (Inl e, fs', self') \<Rightarrow>
          (if e = FileNotFoundError then
             (Inr (), fs',
              self'\<lparr>logging := logging self' @
                [(ERROR, ''Failed to export shopping cart to {filename}. File not found.'',
                  [PyStr filename])]\<rparr>)
           else (Inl e, fs', self'))
      | (Inr u, fs', self') \<Rightarrow> (Inr u, fs', self'))"

text \<open>The connection to a database file that holds nothing yet, and the cart that
  \<open>ShoppingCart()\<close> builds on it in a process that has logged nothing.\<close>

definition empty_database :: database where
  "empty_database = \<lparr>cart = [], schema_version = []\<rparr>"

definition empty_cart :: shopping_cart where
  "empty_cart = ShoppingCart_init empty_database []"

subsection \<open>States of the examples\<close>

text \<open>The session of the specification: \<open>add("Apple", 1.20)\<close>, \<open>add("Bread", 2.50)\<close>,
  \<open>remove("Apple")\<close> on the empty cart.\<close>

definition cart_apple :: shopping_cart where
  "cart_apple = snd (add_item empty_cart (PyStr ''Apple'') (PyNum (PyFloat (120 / 100))))"

definition cart_apple_bread :: shopping_cart where
  "cart_apple_bread = snd (add_item cart_apple (PyStr ''Bread'') (PyNum (PyFloat (250 / 100))))"

definition cart_bread :: shopping_cart where
  "cart_bread = remove_item cart_apple_bread ''Apple''"

text \<open>A table written before the migration, whose rowids have gaps from deleted rows.\<close>

definition legacy_database :: database where
  "legacy_database =
     \<lparr>cart = [(5, ''Apple'', 6 / 5), (9, ''Bread'', 5 / 2)], schema_version = []\<rparr>"

text \<open>A migrated store with one row, and the cart that \<open>ShoppingCart()\<close> builds on it.\<close>

definition apple_database :: database where
  "apple_database = \<lparr>cart = [(1, ''Apple'', 6 / 5)], schema_version = [1]\<rparr>"

definition apple_cart :: shopping_cart where
  "apple_cart = ShoppingCart_init apple_database []"

text \<open>A cart and a store that both hold the name \<open>Apple\<close> twice.\<close>

definition apples_cart :: shopping_cart where
  "apples_cart =
     \<lparr>items = [\<lparr>key_id = Some 1, key_item = ''Apple'', key_price = PyFloat (6 / 5)\<rparr>,
               \<lparr>key_id = Some 2, key_item = ''Bread'', key_price = PyFloat (5 / 2)\<rparr>,
               \<lparr>key_id = Some 3, key_item = ''Apple'', key_price = PyFloat 1\<rparr>],
      db = \<lparr>cart = [(1, ''Apple'', 6 / 5), (2, ''Bread'', 5 / 2), (3, ''Apple'', 1)],
            schema_version = [1]\<rparr>,
      logging = []\<rparr>"

section \<open>Properties of the store\<close>

subsection \<open>Rowids\<close>

lemma max_rowid_snoc:
  "max_rowid (rs @ [r]) = (if rs = [] then fst r else max (max_rowid rs) (fst r))"
  by (induction rs rule: max_rowid.induct) auto

lemma lastrowid_seq:
  "map fst rows = [1..int (length rows)] \<Longrightarrow> lastrowid rows = int (length rows) + 1"
proof (induction rows rule: rev_induct)
  case Nil
  then show ?case by (simp add: lastrowid_def)
next
  case (snoc r rs)
  have up: "[1..int (length rs) + 1] = [1..int (length rs)] @ [int (length rs) + 1]"
    by (simp add: upto_rec2)
  from snoc.prems have a: "map fst rs = [1..int (length rs)]"
    and b: "fst r = int (length rs) + 1"
    using up by (simp_all add: add.commute)
  from snoc.IH [OF a] have "rs \<noteq> [] \<Longrightarrow> max_rowid rs = int (length rs)"
    by (simp add: lastrowid_def)
  then show ?case using b
    by (simp add: lastrowid_def max_rowid_snoc)
qed

lemma insert_select_ids:
  "map fst cart_new = [1..int (length cart_new)] \<Longrightarrow>
   map fst (insert_select cart_new rows) = [1..int (length cart_new + length rows)]"
proof (induction rows arbitrary: cart_new)
  case Nil
  then show ?case by simp
next
  case (Cons r rows)
  have "map fst (insert_row cart_new (fst (snd r)) (snd (snd r)))
        = [1..int (length (insert_row cart_new (fst (snd r)) (snd (snd r))))]"
    using Cons.prems lastrowid_seq [OF Cons.prems]
    by (simp add: insert_row_def upto_rec2 add.commute)
  from Cons.IH [OF this] show ?case by (simp add: insert_row_def)
qed

lemma insert_select_columns:
  "map snd (insert_select cart_new rows) = map snd cart_new @ map snd rows"
  by (induction rows arbitrary: cart_new) (simp_all add: insert_row_def)

text \<open>
  Claim C10. The migration that runs below schema version 1 copies the columns
  \<open>item\<close> and \<open>price\<close> of every row, in scan order, and nothing of the column \<open>id\<close>:
  the new table numbers its rows 1, 2, ..., so the ids after the migration are the old
  ids only when the old ids already were 1, 2, ... without a gap.
\<close>

theorem update_schema_reassigns_ids:
  "current_version < 1 \<Longrightarrow>
     map fst (cart (Database_update_schema conn current_version)) = [1..int (length (cart conn))]
   \<and> map snd (cart (Database_update_schema conn current_version)) = map snd (cart conn)
   \<and> (map fst (cart (Database_update_schema conn current_version)) = map fst (cart conn))
       = (map fst (cart conn) = [1..int (length (cart conn))])"
proof -
  assume v: "current_version < 1"
  have ids: "map fst (insert_select [] (cart conn)) = [1..int (length (cart conn))]"
    using insert_select_ids [of "[]" "cart conn"] by simp
  have cols: "map snd (insert_select [] (cart conn)) = map snd (cart conn)"
    by (simp add: insert_select_columns)
  from v ids cols show ?thesis
    by (auto simp: Database_update_schema_def)
qed

text \<open>The migration of a table with the rowids 5 and 9: the rows come out as 1 and 2.\<close>

theorem update_schema_reassigns_ids_witness:
  "(0::int) < 1
   \<and> cart (Database_update_schema legacy_database 0) =
       [(1, ''Apple'', 6 / 5), (2, ''Bread'', 5 / 2)]
   \<and> map fst (cart (Database_update_schema legacy_database 0)) \<noteq> map fst (cart legacy_database)"
proof -
  have v: "(0::int) < 1" by simp
  have e: "cart (Database_update_schema legacy_database 0) =
      [(1, ''Apple'', 6 / 5), (2, ''Bread'', 5 / 2)]"
    by (simp add: Database_update_schema_def legacy_database_def insert_row_def lastrowid_def)
  from update_schema_reassigns_ids [OF v, of legacy_database] v e show ?thesis
    by (auto simp: legacy_database_def)
qed

subsection \<open>Delete and update\<close>

lemma delete_where_item_filter:
  "delete_where_item item rows = filter (\<lambda>r. fst (snd r) \<noteq> item) rows"
  by (induction rows) simp_all

lemma update_where_item_keeps_price:
  "map (\<lambda>r. snd (snd r)) (update_where_item old_name set_item None rows)
   = map (\<lambda>r. snd (snd r)) rows"
  by (induction rows) simp_all

lemma update_where_item_keeps_item:
  "map (\<lambda>r. fst (snd r)) (update_where_item old_name None set_price rows)
   = map (\<lambda>r. fst (snd r)) rows"
  by (induction rows) simp_all

text \<open>A price whose truth value is false is never written, and neither is a name whose
  truth value is false, whatever the other argument is.\<close>

lemma Database_update_item_falsy_price:
  "\<not> truthy_price new_price \<Longrightarrow>
   Database_update_item conn old_name new_name new_price = Inr conn' \<Longrightarrow>
   map (\<lambda>r. snd (snd r)) (cart conn') = map (\<lambda>r. snd (snd r)) (cart conn)"
  by (auto simp: Database_update_item_def update_where_item_keeps_price split: if_splits)

lemma Database_update_item_falsy_name:
  "\<not> truthy_name new_name \<Longrightarrow>
   Database_update_item conn old_name new_name new_price = Inr conn' \<Longrightarrow>
   map (\<lambda>r. fst (snd r)) (cart conn') = map (\<lambda>r. fst (snd r)) (cart conn)"
  by (auto simp: Database_update_item_def update_where_item_keeps_item
      split: if_splits sum.splits)

text \<open>
  Claim C1. The claim wants a provided \<open>new_price\<close> written to the matching row also
  when it is 0, and a provided \<open>new_name\<close> also when it is the empty string. On the
  store with the one row \<open>(1, Apple, 1.2)\<close> the method does this instead: with
  \<open>new_price = 0\<close> alone it changes nothing; with \<open>new_name = "Pear"\<close> and
  \<open>new_price = 0.0\<close> it writes the name and keeps the price 1.2; with \<open>new_name = ""\<close>
  and \<open>new_price = 3\<close> it writes the price and keeps the name. \<open>ShoppingCart.update_item\<close>
  tests \<open>is not None\<close>, so after \<open>update_item("Apple", new_price=0)\<close> the list holds the
  price 0 and the table still holds 1.2.
\<close>

theorem Database_update_item_falsy_values:
  "Database_update_item apple_database ''Apple'' None (Some (PyInt 0)) = Inr apple_database
   \<and> Database_update_item apple_database ''Apple'' (Some ''Pear'') (Some (PyFloat 0)) =
       Inr \<lparr>cart = [(1, ''Pear'', 6 / 5)], schema_version = [1]\<rparr>
   \<and> Database_update_item apple_database ''Apple'' (Some []) (Some (PyInt 3)) =
       Inr \<lparr>cart = [(1, ''Apple'', 3)], schema_version = [1]\<rparr>
   \<and> map key_price (items (snd (update_item apple_cart ''Apple'' None (Some (PyInt 0))))) = [PyInt 0]
   \<and> cart (db (snd (update_item apple_cart ''Apple'' None (Some (PyInt 0))))) =
       [(1, ''Apple'', 6 / 5)]"
  by (simp add: apple_cart_def apple_database_def Database_update_item_def bind_real_def
      update_item_def ShoppingCart_init_def Database_init_def get_all_items_def
      Database_create_table_def Database_ensure_database_version_def
      Database_update_schema_def)

section \<open>Properties of the cart\<close>

subsection \<open>The first match\<close>

lemma first_match_Some:
  "first_match xs item = Some i \<Longrightarrow> key_item i = item \<and> i \<in> set xs"
  by (induction xs) (auto split: if_splits)

lemma first_match_append:
  "first_match (xs @ ys) item =
     (case first_match xs item of None \<Rightarrow> first_match ys item | Some i \<Rightarrow> Some i)"
  by (induction xs) simp_all

text \<open>\<open>self.items.remove(i)\<close> compares with \<open>==\<close>; for the first entry named \<open>item\<close>
  it deletes that very entry, since an equal entry before it would bear the same name.\<close>

lemma remove1_first_match:
  "first_match xs item = Some i \<Longrightarrow>
   remove1 i xs = takeWhile (\<lambda>j. key_item j \<noteq> item) xs
                  @ drop 1 (dropWhile (\<lambda>j. key_item j \<noteq> item) xs)"
proof (induction xs)
  case Nil
  then show ?case by simp
next
  case (Cons x xs)
  show ?case
  proof (cases "key_item x = item")
    case True
    with Cons.prems show ?thesis by simp
  next
    case False
    with Cons.prems have m: "first_match xs item = Some i" by simp
    from first_match_Some [OF m] False have "x \<noteq> i" by auto
    with False Cons.IH [OF m] show ?thesis by simp
  qed
qed

lemma no_match_unchanged:
  "first_match xs item = None \<Longrightarrow>
   takeWhile (\<lambda>j. key_item j \<noteq> item) xs
   @ drop 1 (dropWhile (\<lambda>j. key_item j \<noteq> item) xs) = xs"
  by (induction xs) (simp_all split: if_splits)

subsection \<open>\<open>remove_item\<close>\<close>

lemma items_remove_item:
  "items (remove_item self item) =
     takeWhile (\<lambda>i. key_item i \<noteq> item) (items self)
     @ drop 1 (dropWhile (\<lambda>i. key_item i \<noteq> item) (items self))"
proof (cases "first_match (items self) item")
  case None
  then show ?thesis
    using no_match_unchanged [OF None]
    by (simp add: remove_item_def Database_remove_item_def)
next
  case (Some i)
  then show ?thesis
    by (simp add: remove_item_def Database_remove_item_def remove1_first_match)
qed

lemma db_remove_item:
  "db (remove_item self item) =
     (db self)\<lparr>cart := filter (\<lambda>r. fst (snd r) \<noteq> item) (cart (db self))\<rparr>"
  by (cases "first_match (items self) item")
     (simp_all add: remove_item_def Database_remove_item_def delete_where_item_filter)

lemma logging_remove_item:
  "last (logging (remove_item self item)) =
     (INFO, ''Item {item} removed from the database.'', [PyStr item])"
  by (cases "first_match (items self) item")
     (simp_all add: remove_item_def Database_remove_item_def)

text \<open>
  Claim C3. For every cart and every name, \<open>remove_item\<close> leaves the in-memory list
  as it was up to the first entry of that name, drops that one entry if there is one, and
  keeps all entries after it, so that at most one entry goes. The table loses every row
  of that name and keeps the other rows in order. The store is called whether or not an
  entry matched: the table is filtered in both cases and the last record logged is that
  of \<open>Database.remove_item\<close>.
\<close>

theorem remove_item_first_match_all_rows:
  "items (remove_item self item) =
     takeWhile (\<lambda>i. key_item i \<noteq> item) (items self)
     @ drop 1 (dropWhile (\<lambda>i. key_item i \<noteq> item) (items self))
   \<and> length (items self) \<le> Suc (length (items (remove_item self item)))
   \<and> cart (db (remove_item self item)) = filter (\<lambda>r. fst (snd r) \<noteq> item) (cart (db self))
   \<and> last (logging (remove_item self item)) =
       (INFO, ''Item {item} removed from the database.'', [PyStr item])"
proof -
  have "length (items self) =
        length (takeWhile (\<lambda>i. key_item i \<noteq> item) (items self))
        + length (dropWhile (\<lambda>i. key_item i \<noteq> item) (items self))"
    by (metis length_append takeWhile_dropWhile_id)
  then have "length (items self) \<le> Suc (length (items (remove_item self item)))"
    by (simp add: items_remove_item)
  then show ?thesis
    by (simp add: items_remove_item db_remove_item logging_remove_item)
qed

text \<open>With \<open>Apple\<close> twice in the list and twice in the table, one entry goes from the
  list and both rows go from the table; with an empty list both rows still go.\<close>

theorem remove_item_first_match_all_rows_witness:
  "items (remove_item apples_cart ''Apple'') =
     [\<lparr>key_id = Some 2, key_item = ''Bread'', key_price = PyFloat (5 / 2)\<rparr>,
      \<lparr>key_id = Some 3, key_item = ''Apple'', key_price = PyFloat 1\<rparr>]
   \<and> cart (db (remove_item apples_cart ''Apple'')) = [(2, ''Bread'', 5 / 2)]
   \<and> items (remove_item (apples_cart\<lparr>items := []\<rparr>) ''Apple'') = []
   \<and> cart (db (remove_item (apples_cart\<lparr>items := []\<rparr>) ''Apple'')) = [(2, ''Bread'', 5 / 2)]"
  using remove_item_first_match_all_rows [of apples_cart "''Apple''"]
    remove_item_first_match_all_rows [of "apples_cart\<lparr>items := []\<rparr>" "''Apple''"]
  by (simp add: apples_cart_def)

subsection \<open>\<open>add_item\<close>\<close>

lemma empty_cart_eq:
  "empty_cart = \<lparr>items = [], db = \<lparr>cart = [], schema_version = [1]\<rparr>,
     logging = [(INFO, ''Database connection initialized.'', []),
                (INFO, ''Shopping cart initialized.'', [])]\<rparr>"
  by (simp add: empty_cart_def ShoppingCart_init_def Database_init_def get_all_items_def
      Database_create_table_def Database_ensure_database_version_def
      Database_update_schema_def empty_database_def)

text \<open>The insert raises nothing but the \<open>OverflowError\<close> of the binding.\<close>

lemma Database_add_item_error:
  "Database_add_item conn item price = Inl e \<Longrightarrow> e = OverflowError"
  by (auto simp: Database_add_item_def bind_real_def Let_def
      split: number.splits if_splits sum.splits)

lemma items_add_item:
  "items (snd (add_item self (PyStr name) (PyNum price))) =
     items self @ [\<lparr>key_id = (case fst (add_item self (PyStr name) (PyNum price)) of
                               Inl e \<Rightarrow> None | Inr item_id \<Rightarrow> Some item_id),
                    key_item = name, key_price = price\<rparr>]"
proof (cases "Database_add_item (db self) name price")
  case (Inl e)
  then show ?thesis
    by (simp add: add_item_def isinstance_str_def isinstance_int_float_def)
next
  case (Inr r)
  then show ?thesis
    by (cases r) (simp add: add_item_def isinstance_str_def isinstance_int_float_def)
qed

text \<open>
  Claim C4. \<open>add_item\<close> raises \<open>ValueError\<close> exactly when the name is no string or the
  price is no number (a number being an \<open>int\<close>, a \<open>bool\<close> or a \<open>float\<close>); and when it
  raises \<open>ValueError\<close> nothing has happened yet: the list, the store and the log are as
  before the call.
\<close>

theorem add_item_validation:
  "(fst (add_item self item price) = Inl ValueError)
     = ((\<forall>s. item \<noteq> PyStr s) \<or> (\<forall>n. price \<noteq> PyNum n))
   \<and> (fst (add_item self item price) = Inl ValueError \<longrightarrow> snd (add_item self item price) = self)"
proof (cases "isinstance_str item \<and> isinstance_int_float price")
  case True
  then obtain s n where sn: "item = PyStr s" "price = PyNum n"
    by (auto simp: isinstance_str_def isinstance_int_float_def split: pyval.splits)
  have "fst (add_item self item price) \<noteq> Inl ValueError"
  proof (cases "Database_add_item (db self) s n")
    case (Inl e)
    with Database_add_item_error [OF Inl] sn show ?thesis
      by (simp add: add_item_def isinstance_str_def isinstance_int_float_def)
  next
    case (Inr r)
    with sn show ?thesis
      by (cases r) (simp add: add_item_def isinstance_str_def isinstance_int_float_def)
  qed
  with sn show ?thesis by simp
next
  case False
  then have raises: "add_item self item price = (Inl ValueError, self)"
    by (auto simp: add_item_def)
  from False have "(\<forall>s. item \<noteq> PyStr s) \<or> (\<forall>n. price \<noteq> PyNum n)"
    by (auto simp: isinstance_str_def isinstance_int_float_def)
  with raises show ?thesis by simp
qed

text \<open>A number as the name and a string as the price are refused and leave the cart as
  it was; \<open>True\<close> as the price is not refused.\<close>

theorem add_item_validation_witness:
  "fst (add_item empty_cart (PyNum (PyInt 7)) (PyNum (PyFloat (6 / 5)))) = Inl ValueError
   \<and> snd (add_item empty_cart (PyNum (PyInt 7)) (PyNum (PyFloat (6 / 5)))) = empty_cart
   \<and> fst (add_item empty_cart (PyStr ''Apple'') (PyStr ''1.20'')) = Inl ValueError
   \<and> fst (add_item empty_cart (PyStr ''Apple'') (PyNum (PyBool True))) \<noteq> Inl ValueError"
  using add_item_validation [of empty_cart "PyNum (PyInt 7)" "PyNum (PyFloat (6 / 5))"]
    add_item_validation [of empty_cart "PyStr ''Apple''" "PyStr ''1.20''"]
    add_item_validation [of empty_cart "PyStr ''Apple''" "PyNum (PyBool True)"]
  by simp

text \<open>
  Claim C9. For a valid name and price, when the insert of the store raises, \<open>add_item\<close>
  raises the same exception and leaves the cart with the new entry appended and without
  an id, everything else unchanged; when the insert returns an id, the entry at that same
  last position carries it.
\<close>

theorem add_item_append_before_insert:
  "(Database_add_item (db self) name price = Inl e \<longrightarrow>
      add_item self (PyStr name) (PyNum price) =
        (Inl e, self\<lparr>items := items self @ [\<lparr>key_id = None, key_item = name, key_price = price\<rparr>]\<rparr>))
   \<and> (Database_add_item (db self) name price = Inr (item_id, conn, lg) \<longrightarrow>
      fst (add_item self (PyStr name) (PyNum price)) = Inr item_id
      \<and> items (snd (add_item self (PyStr name) (PyNum price))) =
          items self @ [\<lparr>key_id = Some item_id, key_item = name, key_price = price\<rparr>])"
  by (simp add: add_item_def isinstance_str_def isinstance_int_float_def)

text \<open>The price \<open>2 ** 63\<close> passes the validation and does not fit the binding: the call
  raises \<open>OverflowError\<close> and the entry stays in the list without an id.\<close>

theorem add_item_append_before_insert_witness:
  "Database_add_item (db empty_cart) ''Apple'' (PyInt (2 ^ 63)) = Inl OverflowError
   \<and> add_item empty_cart (PyStr ''Apple'') (PyNum (PyInt (2 ^ 63))) =
       (Inl OverflowError,
        empty_cart\<lparr>items := [\<lparr>key_id = None, key_item = ''Apple'', key_price = PyInt (2 ^ 63)\<rparr>]\<rparr>)"
proof -
  have h: "Database_add_item (db empty_cart) ''Apple'' (PyInt (2 ^ 63)) = Inl OverflowError"
    by (simp add: Database_add_item_def bind_real_def)
  have i: "items empty_cart = []"
    by (simp add: empty_cart_eq)
  from add_item_append_before_insert [of empty_cart "''Apple''" "PyInt (2 ^ 63)" OverflowError] h i
  show ?thesis by simp
qed

text \<open>An earlier entry of the same name stays the one that \<open>get_item\<close> returns.\<close>

lemma get_item_keeps_earlier_entry:
  "get_item self name = Some i \<Longrightarrow>
   get_item (snd (add_item self (PyStr name) (PyNum price))) name = Some i"
  by (simp add: get_item_def items_add_item first_match_append)

text \<open>
  Claim C5, as stated, at a concrete input: on the empty cart, after
  \<open>add_item("Apple", 1.0)\<close> and \<open>add_item("Apple", 2.0)\<close>, the price of
  \<open>get_item("Apple")\<close> is not the 2.0 just added (it is the 1.0 of the first entry).
\<close>

theorem add_item_then_get_item_counterexample:
  "map_option key_price
     (get_item (snd (add_item (snd (add_item empty_cart (PyStr ''Apple'') (PyNum (PyFloat 1))))
                      (PyStr ''Apple'') (PyNum (PyFloat 2)))) ''Apple'')
   \<noteq> Some (PyFloat 2)"
  by (simp add: empty_cart_eq add_item_def isinstance_str_def isinstance_int_float_def
      Database_add_item_def bind_real_def lastrowid_def insert_row_def get_item_def)

text \<open>
  Claim C5, amended. For every string name and numeric price, and every cart whose
  in-memory list holds no entry of that name, \<open>add_item(name, price)\<close> followed by
  \<open>get_item(name)\<close> returns an entry whose name and price are the added values; its id
  is the one \<open>add_item\<close> returned (and is absent if the insert raised).
\<close>

theorem add_item_then_get_item:
  assumes "get_item self name = None"
  shows "get_item (snd (add_item self (PyStr name) (PyNum price))) name =
           Some \<lparr>key_id = (case fst (add_item self (PyStr name) (PyNum price)) of
                              Inl e \<Rightarrow> None | Inr item_id \<Rightarrow> Some item_id),
                 key_item = name, key_price = price\<rparr>"
  using assms by (simp add: get_item_def items_add_item first_match_append)

text \<open>On the empty cart, \<open>add_item("Apple", 1.2)\<close> then \<open>get_item("Apple")\<close>.\<close>

theorem add_item_then_get_item_witness:
  "get_item empty_cart ''Apple'' = None
   \<and> get_item (snd (add_item empty_cart (PyStr ''Apple'') (PyNum (PyFloat (6 / 5))))) ''Apple'' =
        Some \<lparr>key_id = Some 1, key_item = ''Apple'', key_price = PyFloat (6 / 5)\<rparr>"
proof -
  have h: "get_item empty_cart ''Apple'' = None"
    by (simp add: get_item_def empty_cart_eq)
  have r: "fst (add_item empty_cart (PyStr ''Apple'') (PyNum (PyFloat (6 / 5)))) = Inr 1"
    by (simp add: empty_cart_eq add_item_def isinstance_str_def isinstance_int_float_def
        Database_add_item_def bind_real_def lastrowid_def)
  from add_item_then_get_item [OF h, of "PyFloat (6 / 5)"] h r show ?thesis by simp
qed

subsection \<open>The session of the specification\<close>

text \<open>
  Claim C6. On the cart that \<open>ShoppingCart()\<close> builds over an empty database file (no
  entries, no rows): \<open>add_item("Apple", 1.20)\<close> returns 1, \<open>add_item("Bread", 2.50)\<close>
  returns 2, \<open>get_count()\<close> is 2 and \<open>get_total_price()\<close> is 3.70; after
  \<open>remove_item("Apple")\<close>, \<open>get_item("Apple")\<close> is \<open>None\<close> and \<open>get_total_price()\<close>
  is 2.50. The decimal literals are the rationals they denote.
\<close>

theorem example_session:
  "items empty_cart = [] \<and> cart (db empty_cart) = []
   \<and> fst (add_item empty_cart (PyStr ''Apple'') (PyNum (PyFloat (120 / 100)))) = Inr 1
   \<and> fst (add_item cart_apple (PyStr ''Bread'') (PyNum (PyFloat (250 / 100)))) = Inr 2
   \<and> get_count cart_apple_bread = 2
   \<and> get_total_price cart_apple_bread = PyFloat (370 / 100)
   \<and> get_item cart_bread ''Apple'' = None
   \<and> get_total_price cart_bread = PyFloat (250 / 100)"
  by (simp add: cart_bread_def cart_apple_bread_def cart_apple_def empty_cart_eq
      add_item_def isinstance_str_def isinstance_int_float_def
      Database_add_item_def bind_real_def lastrowid_def insert_row_def
      remove_item_def Database_remove_item_def get_item_def get_count_def get_total_price_def)

text \<open>The state after the session: one entry and one row, both with the id 2.\<close>

theorem example_session_witness:
  "get_count cart_apple_bread = 2
   \<and> get_total_price cart_apple_bread = PyFloat (37 / 10)
   \<and> get_total_price cart_bread = PyFloat (5 / 2)
   \<and> items cart_bread = [\<lparr>key_id = Some 2, key_item = ''Bread'', key_price = PyFloat (5 / 2)\<rparr>]
   \<and> cart (db cart_bread) = [(2, ''Bread'', 5 / 2)]"
proof -
  have "items cart_bread = [\<lparr>key_id = Some 2, key_item = ''Bread'', key_price = PyFloat (5 / 2)\<rparr>]
     \<and> cart (db cart_bread) = [(2, ''Bread'', 5 / 2)]"
    by (simp add: cart_bread_def cart_apple_bread_def cart_apple_def empty_cart_eq
        add_item_def isinstance_str_def isinstance_int_float_def
        Database_add_item_def bind_real_def lastrowid_def insert_row_def
        remove_item_def Database_remove_item_def)
  with example_session show ?thesis by simp
qed

subsection \<open>\<open>get_total_price\<close>\<close>

text \<open>Without entries the total is the integer 0 that \<open>sum\<close> starts from, and over
  prices that are all of type \<open>int\<close> it is their sum, an \<open>int\<close>: Python adds integers
  exactly and without bound.\<close>

lemma get_total_price_empty:
  "items self = [] \<Longrightarrow> get_total_price self = PyInt 0"
  by (simp add: get_total_price_def)

lemma py_sum_ints:
  "py_sum (map PyInt ns) (PyInt k) = PyInt (k + sum_list ns)"
  by (induction ns arbitrary: k) simp_all

lemma get_total_price_ints:
  "map key_price (items self) = map PyInt ns \<Longrightarrow> get_total_price self = PyInt (sum_list ns)"
  by (simp add: get_total_price_def py_sum_ints)

subsection \<open>\<open>update_item\<close>\<close>

text \<open>
  Claim C8. For every cart and every \<open>old_name\<close>, \<open>update_item(old_name)\<close> with
  neither a new name nor a new price returns \<open>None\<close>, leaves the in-memory list and the
  store as they were, and logs the one warning \<open>No updates provided.\<close>
\<close>

theorem update_item_no_updates:
  "fst (update_item self old_name None None) = Inr ()
   \<and> items (snd (update_item self old_name None None)) = items self
   \<and> db (snd (update_item self old_name None None)) = db self
   \<and> logging (snd (update_item self old_name None None)) =
       logging self @ [(WARNING, ''No updates provided.'', [])]"
  by (simp add: update_item_def)

text \<open>On the cart with two entries named \<open>Apple\<close>.\<close>

theorem update_item_no_updates_witness:
  "fst (update_item apples_cart ''Apple'' None None) = Inr ()
   \<and> items (snd (update_item apples_cart ''Apple'' None None)) = items apples_cart
   \<and> db (snd (update_item apples_cart ''Apple'' None None)) = db apples_cart
   \<and> logging (snd (update_item apples_cart ''Apple'' None None)) =
       [(WARNING, ''No updates provided.'', [])]"
  using update_item_no_updates [of apples_cart "''Apple''"]
  by (simp add: apples_cart_def)

subsection \<open>The exports\<close>

text \<open>What each export does with an error \<open>e\<close> of \<open>open\<close> or of a write: the JSON
  export swallows and logs \<open>FileNotFoundError\<close> alone, and every other pair of export
  and error ends the call with the exception, nothing logged.\<close>

lemma export_error_propagation:
  "export_cart_to_json self filename fs (OpenRaises FileNotFoundError) =
     (Inr (), fs,
      self\<lparr>logging := logging self @
        [(ERROR, ''Failed to export shopping cart to {filename}. File not found.'',
          [PyStr filename])]\<rparr>)
   \<and> export_cart_to_json self filename fs (WriteRaises FileNotFoundError) =
     (Inr (), fs(filename \<mapsto> Partial),
      self\<lparr>logging := logging self @
        [(ERROR, ''Failed to export shopping cart to {filename}. File not found.'',
          [PyStr filename])]\<rparr>)
   \<and> (e \<noteq> FileNotFoundError \<longrightarrow>
        export_cart_to_json self filename fs (OpenRaises e) = (Inl e, fs, self)
        \<and> export_cart_to_json self filename fs (WriteRaises e) =
            (Inl e, fs(filename \<mapsto> Partial), self))
   \<and> export_shopping_list self filename fs (OpenRaises e) = (Inl e, fs, self)
   \<and> export_shopping_list self filename fs (WriteRaises e) = (Inl e, fs(filename \<mapsto> Partial), self)"
  by (simp add: export_shopping_list_def export_cart_to_json_def export_cart_to_json_try_def)

text \<open>
  Claim C2. The claim wants every I/O error raised while an export opens or writes its
  file caught, logged and kept from the caller, as \<open>export_logs\<close> does with
  \<open>except Exception\<close>. The two exports do this instead, here on the empty cart: when
  \<open>open\<close> raises \<open>FileNotFoundError\<close>, \<open>export_shopping_list\<close> ends with that
  exception and logs nothing; when \<open>open\<close> raises \<open>PermissionError\<close>,
  \<open>export_cart_to_json\<close> ends with that exception and logs nothing, its handler being
  for \<open>FileNotFoundError\<close> only.
\<close>

theorem export_errors_not_caught:
  "fst (export_shopping_list empty_cart ''list.txt'' Map.empty (OpenRaises FileNotFoundError))
     = Inl FileNotFoundError
   \<and> logging (snd (snd (export_shopping_list empty_cart ''list.txt'' Map.empty
        (OpenRaises FileNotFoundError))))
     = logging empty_cart
   \<and> fst (export_cart_to_json empty_cart ''cart.json'' Map.empty (OpenRaises PermissionError))
     = Inl PermissionError
   \<and> logging (snd (snd (export_cart_to_json empty_cart ''cart.json'' Map.empty
        (OpenRaises PermissionError))))
     = logging empty_cart"
  by (simp add: export_shopping_list_def export_cart_to_json_def export_cart_to_json_try_def)

end
